theory Spec2Isabelle
  imports Complex_Main
begin

section \<open>Conventions of the embedding\<close>

text \<open>
  The development embeds the raster alignment, compositing, mask and classification
  routines of \<^verbatim>\<open>pyeo/core.py\<close>.

  \<^item> A GDAL dataset is a record holding the four non-zero coefficients of its
    north-up geotransform, its size in pixels and its pixel buffer in GDAL order
    (band, row, column). The band count is the length of the buffer.
  \<^item> Geotransform coefficients and geographic coordinates are exact rationals. Every
    finite double is a rational, but the rounding of IEEE-754 arithmetic is not part of
    the model: sums, products and quotients are exact.
  \<^item> Pixel values are integers. Conversions between GDAL pixel types are not modelled,
    except the casts to unsigned bytes that \<^verbatim>\<open>classify_image\<close> writes out itself.
  \<^item> A Python exception is the left summand of the result type.
\<close>

text \<open>\<open>StackImagesException\<close> is the class of that name in the source. The three
  \<open>Invalid\<close> constructors are the plain \<^verbatim>\<open>Exception\<close>s raised on an unknown geometry
  mode (in \<^verbatim>\<open>get_combined_polygon\<close>), geometry function and combination function (in
  \<^verbatim>\<open>combine_masks\<close>). \<open>IndexError\<close> and \<open>ZeroDivisionError\<close> are Python's,
  \<open>ValueError\<close> is numpy's failure to broadcast two shapes, and \<open>RuntimeError\<close> is GDAL
  refusing to create a dataset without pixels.\<close>

datatype error =
    StackImagesException string
  | InvalidGeometryMode
  | InvalidGeometryFunc
  | InvalidCombinationFunc
  | IndexError
  | ZeroDivisionError
  | ValueError
  | RuntimeError

definition bindE :: "error + 'a \<Rightarrow> ('a \<Rightarrow> error + 'b) \<Rightarrow> error + 'b" where
  "bindE m f = (case m of Inl e \<Rightarrow> Inl e | Inr v \<Rightarrow> f v)"

record raster =
  gt0 :: rat
  gt1 :: rat
  gt3 :: rat
  gt5 :: rat
  RasterXSize :: nat
  RasterYSize :: nat
  pixels :: "int list list list"

definition RasterCount :: "raster \<Rightarrow> nat" where
  "RasterCount r = length (pixels r)"


section \<open>Python and numpy primitives\<close>

text \<open>\<^verbatim>\<open>int(x)\<close> on a float truncates toward zero.\<close>

definition py_int :: "rat \<Rightarrow> int" where
  "py_int q = (if 0 \<le> q then \<lfloor>q\<rfloor> else \<lceil>q\<rceil>)"

text \<open>Normalisation of one bound of a slice \<^verbatim>\<open>a[lo:hi]\<close> over a sequence of length
  \<open>n\<close>: a negative bound counts from the end, and every bound is clamped.\<close>

definition slice_index :: "nat \<Rightarrow> int \<Rightarrow> nat" where
  "slice_index n i = (if i < 0 then nat (max (i + int n) 0) else min (nat i) n)"

definition slice_range :: "nat \<Rightarrow> int \<Rightarrow> int \<Rightarrow> nat \<times> nat" where
  "slice_range n lo hi =
     (let s = slice_index n lo in (s, max s (slice_index n hi)))"

definition py_slice :: "'a list \<Rightarrow> int \<Rightarrow> int \<Rightarrow> 'a list" where
  "py_slice xs lo hi =
     (case slice_range (length xs) lo hi of (s, e) \<Rightarrow> take (e - s) (drop s xs))"

text \<open>\<^verbatim>\<open>view = a[lo:hi]; view[:] = vs\<close>: the values are broadcast to the length of the
  view, which fails unless there are as many values as places, or exactly one.\<close>

definition assign_slice :: "'a list \<Rightarrow> int \<Rightarrow> int \<Rightarrow> 'a list \<Rightarrow> error + 'a list" where
  "assign_slice xs lo hi vs =
     (case slice_range (length xs) lo hi of (s, e) \<Rightarrow>
        if length vs = e - s then Inr (take s xs @ vs @ drop e xs)
        else if length vs = 1 then Inr (take s xs @ replicate (e - s) (hd vs) @ drop e xs)
        else Inl ValueError)"

text \<open>A cast to \<^verbatim>\<open>np.ubyte\<close> keeps the low eight bits.\<close>

definition ubyte :: "int \<Rightarrow> int" where
  "ubyte v = v mod 256"

section \<open>Chunked classification\<close>

text \<open>\<^verbatim>\<open>reshape_raster_for_ml\<close>: from (band, y, x) to one sample per pixel, rows first,
  each sample listing the bands of its pixel.\<close>

definition reshape_raster_for_ml :: "raster \<Rightarrow> int list list" where
  "reshape_raster_for_ml img =
     concat (map (\<lambda>y. map (\<lambda>x. map (\<lambda>band. band ! y ! x) (pixels img))
                          [0..<RasterXSize img])
                 [0..<RasterYSize img])"

text \<open>\<^verbatim>\<open>reshape_ml_out_to_raster\<close>: \<^verbatim>\<open>np.reshape(classes, (height, width))\<close>, which
  raises unless the sizes agree.\<close>

definition reshape_ml_out_to_raster :: "'a list \<Rightarrow> nat \<Rightarrow> nat \<Rightarrow> error + 'a list list" where
  "reshape_ml_out_to_raster classes width height =
     (if length classes = height * width
      then Inr (map (\<lambda>y. take width (drop (y * width) classes)) [0..<height])
      else Inl ValueError)"

text \<open>The pretrained model is opaque. Its \<^verbatim>\<open>predict\<close> entry point labels every row of
  the array it is given on its own; the labelling of one sample is the parameter
  \<open>predict\<close>.\<close>

definition model_predict :: "(int list \<Rightarrow> int) \<Rightarrow> int list list \<Rightarrow> int list" where
  "model_predict predict chunk_view = map predict chunk_view"

text \<open>The loop over \<^verbatim>\<open>range(num_chunks)\<close>. The variable \<^verbatim>\<open>chunk_size\<close> is updated in
  the last round and therefore threaded through, together with the array
  \<^verbatim>\<open>classes\<close> of unsigned bytes that the views write into.\<close>

fun classify_chunks ::
  "(int list \<Rightarrow> int) \<Rightarrow> int list list \<Rightarrow> int \<Rightarrow> int \<Rightarrow> nat list \<Rightarrow> int \<Rightarrow> int list
     \<Rightarrow> error + int list" where
  "classify_chunks predict good_samples num_chunks chunk_resid [] chunk_size classes =
     Inr classes"
| "classify_chunks predict good_samples num_chunks chunk_resid (chunk_id # ids) chunk_size classes =
     (let offset = int chunk_id * chunk_size;
          chunk_size' = (if int chunk_id = num_chunks - 1 then chunk_size + chunk_resid
                         else chunk_size);
          chunk_view = py_slice good_samples offset (offset + chunk_size')
      in bindE (assign_slice classes offset (offset + chunk_size')
                  (map ubyte (model_predict predict chunk_view)))
           (classify_chunks predict good_samples num_chunks chunk_resid ids chunk_size'))"

text \<open>\<^verbatim>\<open>for i, class_val in zip(good_indices, classes): class_out_array[i] = class_val\<close>\<close>

fun scatter :: "'a list \<Rightarrow> (nat \<times> 'a) list \<Rightarrow> 'a list" where
  "scatter out [] = out"
| "scatter out ((i, v) # rest) = scatter (out[i := v]) rest"

text \<open>The samples kept for classification and their flat indices. The test
  \<^verbatim>\<open>if 0 in image_array\<close> looks for the literal zero, whatever \<^verbatim>\<open>nodata\<close> is.\<close>

definition has_zero :: "int list list \<Rightarrow> bool" where
  "has_zero image_array = list_ex (\<lambda>s. list_ex (\<lambda>v. v = 0) s) image_array"

definition is_good :: "int \<Rightarrow> int list \<Rightarrow> bool" where
  "is_good nodata s = list_all (\<lambda>v. v \<noteq> nodata) s"

definition good_samples_of :: "int \<Rightarrow> int list list \<Rightarrow> int list list" where
  "good_samples_of nodata image_array =
     (if has_zero image_array then filter (is_good nodata) image_array else image_array)"

definition good_indices_of :: "int \<Rightarrow> int list list \<Rightarrow> nat list" where
  "good_indices_of nodata image_array =
     (if has_zero image_array
      then filter (\<lambda>i. is_good nodata (image_array ! i)) [0..<length image_array]
      else [0..<length image_array])"

text \<open>\<^verbatim>\<open>classify_image\<close> without mask and without probability output. The result is
  the content of the byte image written to \<^verbatim>\<open>class_out_dir\<close>.\<close>

definition classify_image ::
  "raster \<Rightarrow> (int list \<Rightarrow> int) \<Rightarrow> int \<Rightarrow> int \<Rightarrow> error + int list list" where
  "classify_image img predict num_chunks nodata =
     (let image_array = reshape_raster_for_ml img;
          n_samples = length image_array;
          good_samples = good_samples_of nodata image_array;
          good_indices = good_indices_of nodata image_array;
          n_good_samples = length good_samples;
          classes = replicate n_good_samples (ubyte nodata)
      in if num_chunks = 0 then Inl ZeroDivisionError
         else
           let chunk_size = py_int (rat_of_nat n_good_samples / rat_of_int num_chunks);
               chunk_resid = int n_good_samples - chunk_size * num_chunks
           in bindE (classify_chunks predict good_samples num_chunks chunk_resid
                       [0..<nat num_chunks] chunk_size classes)
                (\<lambda>classes'.
                   let class_out_array =
                         scatter (replicate n_samples nodata) (zip good_indices classes')
                   in bindE (reshape_ml_out_to_raster class_out_array
                               (RasterXSize img) (RasterYSize img))
                        (\<lambda>out. Inr (map (map ubyte) out))))"

text \<open>\<^verbatim>\<open>autochunk\<close>: the search over \<^verbatim>\<open>range(1, pixels)\<close>; falling off the end of the
  loop returns \<^verbatim>\<open>None\<close>.\<close>

fun autochunk_search :: "nat \<Rightarrow> nat \<Rightarrow> int \<Rightarrow> nat list \<Rightarrow> nat option" where
  "autochunk_search npixels bytes_per_pixel mem_limit [] = None"
| "autochunk_search npixels bytes_per_pixel mem_limit (num_chunks # rest) =
     (if npixels mod num_chunks \<noteq> 0
      then autochunk_search npixels bytes_per_pixel mem_limit rest
      else if (rat_of_nat npixels / rat_of_nat num_chunks) * rat_of_nat bytes_per_pixel
                < rat_of_int mem_limit
      then Some num_chunks
      else autochunk_search npixels bytes_per_pixel mem_limit rest)"

text \<open>The byte width of a pixel (\<^verbatim>\<open>dtype.itemsize\<close>) and the free memory reported by
  \<^verbatim>\<open>os.sysconf\<close> are inputs of the model.\<close>

definition autochunk :: "raster \<Rightarrow> nat \<Rightarrow> int option \<Rightarrow> int \<Rightarrow> nat option" where
  "autochunk dataset itemsize mem_limit avail =
     (let npixels = RasterXSize dataset * RasterYSize dataset;
          bytes_per_pixel = itemsize * RasterCount dataset;
          discounted = py_int (rat_of_int avail * (8 / 10));
          limit = (case mem_limit of None \<Rightarrow> discounted
                   | Some m \<Rightarrow> if m = 0 then discounted else m)
      in autochunk_search npixels bytes_per_pixel limit [1..<npixels])"

section \<open>Footprint geometry\<close>

text \<open>
  An OGR envelope is the tuple (min x, max x, min y, max y). The polygons that the
  source builds are footprints of north-up rasters and their intersections and unions,
  so a polygon is modelled as the region covered by a finite list of axis-parallel
  rectangles of positive area. Intersection and union are those of the regions; pieces
  without area are dropped (OGR would return a line or a point there).
  \<^verbatim>\<open>Simplify(0)\<close> and \<^verbatim>\<open>Boundary()\<close> leave the region and its envelope unchanged.
  The envelope of the empty geometry is all zeros, as in OGR.
\<close>

type_synonym envelope = "rat \<times> rat \<times> rat \<times> rat"

type_synonym polygon = "envelope list"

definition rect_nonempty :: "envelope \<Rightarrow> bool" where
  "rect_nonempty e = (case e of (x0, x1, y0, y1) \<Rightarrow> x0 < x1 \<and> y0 < y1)"

definition rect_inter :: "envelope \<Rightarrow> envelope \<Rightarrow> envelope" where
  "rect_inter a b =
     (case a of (ax0, ax1, ay0, ay1) \<Rightarrow> case b of (bx0, bx1, by0, by1) \<Rightarrow>
        (max ax0 bx0, min ax1 bx1, max ay0 by0, min ay1 by1))"

definition ogr_Intersection :: "polygon \<Rightarrow> polygon \<Rightarrow> polygon" where
  "ogr_Intersection p q = filter rect_nonempty (concat (map (\<lambda>a. map (rect_inter a) q) p))"

definition ogr_Union :: "polygon \<Rightarrow> polygon \<Rightarrow> polygon" where
  "ogr_Union p q = p @ q"

fun ogr_GetEnvelope :: "polygon \<Rightarrow> envelope" where
  "ogr_GetEnvelope [] = (0, 0, 0, 0)"
| "ogr_GetEnvelope [e] = e"
| "ogr_GetEnvelope (e # es) =
     (case e of (x0, x1, y0, y1) \<Rightarrow> case ogr_GetEnvelope es of (a0, a1, b0, b1) \<Rightarrow>
        (min x0 a0, max x1 a1, min y0 b0, max y1 b1))"

text \<open>\<^verbatim>\<open>get_raster_bounds\<close>: the ring through the four corners computed from the
  geotransform and the size.\<close>

definition get_raster_bounds :: "raster \<Rightarrow> polygon" where
  "get_raster_bounds r =
     (let top_left_x = gt0 r;
          top_left_y = gt3 r;
          width = gt1 r * rat_of_nat (RasterXSize r);
          height = gt5 r * rat_of_nat (RasterYSize r) * (- 1)
      in filter rect_nonempty
           [(min top_left_x (top_left_x + width), max top_left_x (top_left_x + width),
             min top_left_y (top_left_y - height), max top_left_y (top_left_y - height))])"

definition get_poly_intersection :: "polygon \<Rightarrow> polygon \<Rightarrow> polygon" where
  "get_poly_intersection poly1 poly2 = ogr_Intersection poly1 poly2"

text \<open>\<^verbatim>\<open>multiple_intersection\<close> and \<^verbatim>\<open>multiple_union\<close> start from \<^verbatim>\<open>polygons[0]\<close>.\<close>

definition multiple_intersection :: "polygon list \<Rightarrow> error + polygon" where
  "multiple_intersection polygons =
     (case polygons of [] \<Rightarrow> Inl IndexError
      | p # ps \<Rightarrow> Inr (foldl ogr_Intersection p ps))"

definition multiple_union :: "polygon list \<Rightarrow> error + polygon" where
  "multiple_union polygons =
     (case polygons of [] \<Rightarrow> Inl IndexError
      | p # ps \<Rightarrow> Inr (foldl ogr_Union p ps))"

definition get_combined_polygon :: "raster list \<Rightarrow> string \<Rightarrow> error + polygon" where
  "get_combined_polygon rasters geometry_mode =
     (let raster_bounds = map get_raster_bounds rasters
      in if geometry_mode = ''intersect'' then multiple_intersection raster_bounds
         else if geometry_mode = ''union'' then multiple_union raster_bounds
         else Inl InvalidGeometryMode)"

text \<open>\<^verbatim>\<open>point_to_pixel_coordinates\<close> for a point given as a pair: the rearranged affine
  geotransform, floored. A zero pixel size makes the float division raise.\<close>

definition point_to_pixel_coordinates :: "raster \<Rightarrow> rat \<times> rat \<Rightarrow> error + int \<times> int" where
  "point_to_pixel_coordinates r point =
     (case point of (x_geo, y_geo) \<Rightarrow>
        if gt1 r = 0 \<or> gt5 r = 0 then Inl ZeroDivisionError
        else Inr (\<lfloor>(x_geo - gt0 r) / gt1 r\<rfloor>, \<lfloor>(y_geo - gt3 r) / gt5 r\<rfloor>))"


text \<open>\<^verbatim>\<open>pixel_bounds_from_polygon\<close>, with the two swaps of the source.\<close>

definition pixel_bounds_from_polygon ::
  "raster \<Rightarrow> polygon \<Rightarrow> error + int \<times> int \<times> int \<times> int" where
  "pixel_bounds_from_polygon r polygon =
     (let raster_bounds = get_raster_bounds r;
          intersection = get_poly_intersection raster_bounds polygon
      in case ogr_GetEnvelope intersection of (x_min_geo, x_max_geo, y_min_geo, y_max_geo) \<Rightarrow>
           bindE (point_to_pixel_coordinates r (x_min_geo, y_min_geo))
             (\<lambda>(x_min_pixel, y_min_pixel).
                bindE (point_to_pixel_coordinates r (x_max_geo, y_max_geo))
                  (\<lambda>(x_max_pixel, y_max_pixel).
                     let (x_min_pixel, x_max_pixel) =
                           (if x_min_pixel \<ge> x_max_pixel then (x_max_pixel, x_min_pixel)
                            else (x_min_pixel, x_max_pixel));
                         (y_min_pixel, y_max_pixel) =
                           (if y_min_pixel \<ge> y_max_pixel then (y_max_pixel, y_min_pixel)
                            else (y_min_pixel, y_max_pixel))
                     in Inr (x_min_pixel, x_max_pixel, y_min_pixel, y_max_pixel))))"

text \<open>\<^verbatim>\<open>create_new_image_from_polygon\<close>: the size is the extent of the envelope divided
  by the resolution and truncated by \<^verbatim>\<open>int\<close>. GDAL creates no dataset with a size below
  one; a new GeoTIFF reads as zeros.\<close>

definition create_new_image_from_polygon ::
  "polygon \<Rightarrow> rat \<Rightarrow> rat \<Rightarrow> nat \<Rightarrow> error + raster" where
  "create_new_image_from_polygon polygon x_res y_res bands =
     (case ogr_GetEnvelope polygon of (bounds_x_min, bounds_x_max, bounds_y_min, bounds_y_max) \<Rightarrow>
        if x_res = 0 \<or> y_res = 0 then Inl ZeroDivisionError
        else
          let final_width_pixels = py_int ((bounds_x_max - bounds_x_min) / x_res);
              final_height_pixels = py_int ((bounds_y_max - bounds_y_min) / y_res)
          in if final_width_pixels < 1 \<or> final_height_pixels < 1 then Inl RuntimeError
             else Inr \<lparr>gt0 = bounds_x_min, gt1 = x_res, gt3 = bounds_y_max, gt5 = y_res * (- 1),
                        RasterXSize = nat final_width_pixels,
                        RasterYSize = nat final_height_pixels,
                        pixels = replicate bands
                                   (replicate (nat final_height_pixels)
                                      (replicate (nat final_width_pixels) 0))\<rparr>)"

text \<open>The footprint of a raster as an envelope, for stating results.\<close>

definition footprint :: "raster \<Rightarrow> envelope" where
  "footprint r = ogr_GetEnvelope (get_raster_bounds r)"

text \<open>A polygon lies within the footprint of a raster when it is not empty and each of
  its rectangles lies within the envelope of the footprint.\<close>

definition rect_within :: "envelope \<Rightarrow> envelope \<Rightarrow> bool" where
  "rect_within a b =
     (case a of (ax0, ax1, ay0, ay1) \<Rightarrow> case b of (bx0, bx1, by0, by1) \<Rightarrow>
        bx0 \<le> ax0 \<and> ax1 \<le> bx1 \<and> by0 \<le> ay0 \<and> ay1 \<le> by1)"

definition polygon_within :: "polygon \<Rightarrow> raster \<Rightarrow> bool" where
  "polygon_within p r \<longleftrightarrow>
     p \<noteq> [] \<and> list_all (\<lambda>e. rect_nonempty e \<and> rect_within e (footprint r)) p"

section \<open>Array views and copies\<close>

text \<open>
  A view \<^verbatim>\<open>a[b0:b1, y0:y1, x0:x1]\<close> into a three-dimensional array is represented by
  its three normalised index ranges. The shape of an array comes from the size fields
  of its dataset; the nested lists hold the values.
\<close>

type_synonym window = "(nat \<times> nat) \<times> (nat \<times> nat) \<times> (nat \<times> nat)"

definition raster_window ::
  "raster \<Rightarrow> int \<times> int \<Rightarrow> int \<times> int \<Rightarrow> int \<times> int \<Rightarrow> window" where
  "raster_window r bs ys xs =
     (slice_range (RasterCount r) (fst bs) (snd bs),
      slice_range (RasterYSize r) (fst ys) (snd ys),
      slice_range (RasterXSize r) (fst xs) (snd xs))"

definition window_shape :: "window \<Rightarrow> nat \<times> nat \<times> nat" where
  "window_shape w = (case w of ((b0, b1), (y0, y1), (x0, x1)) \<Rightarrow> (b1 - b0, y1 - y0, x1 - x0))"

definition slice3 :: "int list list list \<Rightarrow> window \<Rightarrow> int list list list" where
  "slice3 arr w =
     (case w of ((b0, b1), (y0, y1), (x0, x1)) \<Rightarrow>
        map (\<lambda>band. map (\<lambda>row. take (x1 - x0) (drop x0 row)) (take (y1 - y0) (drop y0 band)))
            (take (b1 - b0) (drop b0 arr)))"

text \<open>numpy broadcasts a source axis onto a destination axis of the same length, and an
  axis of length one onto any length.\<close>

definition broadcastable_to :: "nat \<Rightarrow> nat \<Rightarrow> bool" where
  "broadcastable_to s d \<longleftrightarrow> s = d \<or> s = 1"

definition bidx :: "nat \<Rightarrow> nat \<Rightarrow> nat" where
  "bidx s i = (if s = 1 then 0 else i)"

text \<open>\<^verbatim>\<open>np.copyto(dst_view, src, where=...)\<close> for a view \<open>w\<close> into the array \<open>dst\<close>: the
  result is the array behind the view after the copy. The condition of the source
  (\<^verbatim>\<open>in_raster_array != nodata\<close>) is a predicate on the source value.\<close>

definition np_copyto ::
  "int list list list \<Rightarrow> window \<Rightarrow> nat \<times> nat \<times> nat \<Rightarrow> int list list list \<Rightarrow> (int \<Rightarrow> bool)
     \<Rightarrow> error + int list list list" where
  "np_copyto dst w src_shape src wh =
     (case w of ((b0, b1), (y0, y1), (x0, x1)) \<Rightarrow> case src_shape of (sb, sh, sw) \<Rightarrow>
        if broadcastable_to sb (b1 - b0) \<and> broadcastable_to sh (y1 - y0)
             \<and> broadcastable_to sw (x1 - x0)
        then Inr (map (\<lambda>b. map (\<lambda>y. map (\<lambda>x.
                    if b0 \<le> b \<and> b < b1 \<and> y0 \<le> y \<and> y < y1 \<and> x0 \<le> x \<and> x < x1
                    then (let v = src ! bidx sb (b - b0) ! bidx sh (y - y0) ! bidx sw (x - x0)
                          in if wh v then v else dst ! b ! y ! x)
                    else dst ! b ! y ! x)
                  [0..<length (dst ! b ! y)]) [0..<length (dst ! b)]) [0..<length dst])
        else Inl ValueError)"

section \<open>Compositor\<close>

text \<open>The loop of \<^verbatim>\<open>stack_images\<close> over the opened rasters; \<^verbatim>\<open>present_layer\<close> is the
  first destination band of the current input.\<close>

fun stack_loop :: "polygon \<Rightarrow> raster list \<Rightarrow> nat \<Rightarrow> raster \<Rightarrow> error + raster" where
  "stack_loop combined_polygons [] present_layer out_raster = Inr out_raster"
| "stack_loop combined_polygons (in_raster # rest) present_layer out_raster =
     bindE (pixel_bounds_from_polygon out_raster combined_polygons)
       (\<lambda>(out_x_min, out_x_max, out_y_min, out_y_max).
          bindE (pixel_bounds_from_polygon in_raster combined_polygons)
            (\<lambda>(in_x_min, in_x_max, in_y_min, in_y_max).
               let out_raster_view =
                     raster_window out_raster
                       (int present_layer, int present_layer + int (RasterCount in_raster))
                       (out_y_min, out_y_max) (out_x_min, out_x_max);
                   in_raster_view =
                     raster_window in_raster (0, int (RasterCount in_raster))
                       (in_y_min, in_y_max) (in_x_min, in_x_max)
               in bindE (np_copyto (pixels out_raster) out_raster_view
                           (window_shape in_raster_view)
                           (slice3 (pixels in_raster) in_raster_view) (\<lambda>v. True))
                    (\<lambda>out_raster_array.
                       stack_loop combined_polygons rest
                         (present_layer + RasterCount in_raster)
                         (out_raster\<lparr>pixels := out_raster_array\<rparr>))))"

text \<open>\<^verbatim>\<open>stack_images\<close> on the opened datasets. The result is the dataset written to
  \<^verbatim>\<open>out_raster_path\<close>.\<close>

definition stack_images :: "raster list \<Rightarrow> string \<Rightarrow> error + raster" where
  "stack_images rasters geometry_mode =
     (if length rasters \<le> 1
      then Inl (StackImagesException ''stack_images requires at least two input images'')
      else
        let total_layers = sum_list (map RasterCount rasters);
            x_res = gt1 (rasters ! 0);
            y_res = gt5 (rasters ! 0) * (- 1)
        in bindE (get_combined_polygon rasters geometry_mode)
             (\<lambda>combined_polygons.
                bindE (create_new_image_from_polygon combined_polygons x_res y_res total_layers)
                  (\<lambda>out_raster. stack_loop combined_polygons rasters 0 out_raster)))"




section \<open>Mask algebra\<close>

text \<open>A mask is a single-band raster, and its virtual array is two-dimensional: the
  rows of its only band.\<close>

definition mask_array :: "raster \<Rightarrow> int list list" where
  "mask_array m = (case pixels m of [] \<Rightarrow> [] | band # others \<Rightarrow> band)"

definition slice2 :: "int list list \<Rightarrow> nat \<times> nat \<Rightarrow> nat \<times> nat \<Rightarrow> int list list" where
  "slice2 arr ys xs =
     map (\<lambda>row. take (snd xs - fst xs) (drop (fst xs) row))
         (take (snd ys - fst ys) (drop (fst ys) arr))"

definition broadcast_dim :: "nat \<Rightarrow> nat \<Rightarrow> nat option" where
  "broadcast_dim a b =
     (if a = b then Some a else if a = 1 then Some b else if b = 1 then Some a else None)"

text \<open>An elementwise binary operation of numpy on two-dimensional arrays of the given
  shapes. It returns a new array.\<close>

definition np_binary ::
  "(int \<Rightarrow> int \<Rightarrow> int) \<Rightarrow> nat \<times> nat \<Rightarrow> int list list \<Rightarrow> nat \<times> nat \<Rightarrow> int list list
     \<Rightarrow> error + int list list" where
  "np_binary f ashape a bshape b =
     (case broadcast_dim (fst ashape) (fst bshape) of None \<Rightarrow> Inl ValueError
      | Some h \<Rightarrow>
         (case broadcast_dim (snd ashape) (snd bshape) of None \<Rightarrow> Inl ValueError
          | Some w \<Rightarrow>
             Inr (map (\<lambda>y. map (\<lambda>x. f (a ! bidx (fst ashape) y ! bidx (snd ashape) x)
                                       (b ! bidx (fst bshape) y ! bidx (snd bshape) x))
                             [0..<w]) [0..<h])))"

text \<open>The bitwise operations on mask values, which are unsigned bytes.\<close>

definition byte_or :: "int \<Rightarrow> int \<Rightarrow> int" where
  "byte_or a b = or a b"

definition byte_and :: "int \<Rightarrow> int \<Rightarrow> int" where
  "byte_and a b = and a b"

definition byte_nor :: "int \<Rightarrow> int \<Rightarrow> int" where
  "byte_nor a b = 255 - or a b"

text \<open>The loop of \<^verbatim>\<open>combine_masks\<close>. The tests \<^verbatim>\<open>combination_func is 'or'\<close> compare
  with a string literal and are modelled as equality of strings. The statement
  \<^verbatim>\<open>out_mask_view = np.bitwise_or(out_mask_view, in_mask_view)\<close> binds the local name
  \<^verbatim>\<open>out_mask_view\<close> to the new array that numpy returns; the array behind the output
  mask is not written. The new array is \<open>out_mask_view'\<close> below, and the loop goes on
  with the output mask as it was.\<close>

fun combine_loop :: "string \<Rightarrow> string \<Rightarrow> polygon \<Rightarrow> raster list \<Rightarrow> raster \<Rightarrow> error + raster" where
  "combine_loop combination_func geometry_func combined_polygon [] out_mask = Inr out_mask"
| "combine_loop combination_func geometry_func combined_polygon (in_mask # rest) out_mask =
     bindE
       (if geometry_func = ''intersect''
        then bindE (pixel_bounds_from_polygon out_mask combined_polygon)
               (\<lambda>out_bounds. bindE (pixel_bounds_from_polygon in_mask combined_polygon)
                  (\<lambda>in_bounds. Inr (out_bounds, in_bounds)))
        else if geometry_func = ''union''
        then bindE (pixel_bounds_from_polygon out_mask (get_raster_bounds in_mask))
               (\<lambda>out_bounds. bindE (pixel_bounds_from_polygon in_mask (get_raster_bounds in_mask))
                  (\<lambda>in_bounds. Inr (out_bounds, in_bounds)))
        else Inl InvalidGeometryFunc)
       (\<lambda>((out_x_min, out_x_max, out_y_min, out_y_max), (in_x_min, in_x_max, in_y_min, in_y_max)).
          let out_ys = slice_range (RasterYSize out_mask) out_y_min out_y_max;
              out_xs = slice_range (RasterXSize out_mask) out_x_min out_x_max;
              in_ys = slice_range (RasterYSize in_mask) in_y_min in_y_max;
              in_xs = slice_range (RasterXSize in_mask) in_x_min in_x_max;
              out_shape = (snd out_ys - fst out_ys, snd out_xs - fst out_xs);
              in_shape = (snd in_ys - fst in_ys, snd in_xs - fst in_xs);
              out_mask_view = slice2 (mask_array out_mask) out_ys out_xs;
              in_mask_view = slice2 (mask_array in_mask) in_ys in_xs
          in bindE
               (if combination_func = ''or''
                then np_binary byte_or out_shape out_mask_view in_shape in_mask_view
                else if combination_func = ''and''
                then np_binary byte_and out_shape out_mask_view in_shape in_mask_view
                else if combination_func = ''nor''
                then np_binary byte_nor out_shape out_mask_view in_shape in_mask_view
                else Inl InvalidCombinationFunc)
               (\<lambda>out_mask_view'.
                  combine_loop combination_func geometry_func combined_polygon rest out_mask))"

text \<open>\<^verbatim>\<open>combine_masks\<close> on the opened masks. The result is the mask written to
  \<^verbatim>\<open>out_path\<close>; \<^verbatim>\<open>out_mask_array[:, :] = 1\<close> fills it with ones before the loop.\<close>

definition combine_masks :: "raster list \<Rightarrow> string \<Rightarrow> string \<Rightarrow> error + raster" where
  "combine_masks masks combination_func geometry_func =
     bindE (get_combined_polygon masks geometry_func)
       (\<lambda>combined_polygon.
          case masks of [] \<Rightarrow> Inl IndexError
          | first # others \<Rightarrow>
              let x_res = gt1 first;
                  y_res = gt5 first * (- 1);
                  bands = 1
              in bindE (create_new_image_from_polygon combined_polygon x_res y_res bands)
                   (\<lambda>out_mask.
                      combine_loop combination_func geometry_func combined_polygon masks
                        (out_mask\<lparr>pixels :=
                           [replicate (RasterYSize out_mask)
                              (replicate (RasterXSize out_mask) 1)]\<rparr>)))"

section \<open>Concrete inputs\<close>

text \<open>A one-band raster of three rows and three columns without zero or nodata pixels:
  nine samples, which seven chunks do not divide evenly.\<close>

definition chunk_example :: raster where
  "chunk_example =
     \<lparr>gt0 = 0, gt1 = 1, gt3 = 3, gt5 = - 1, RasterXSize = 3, RasterYSize = 3,
      pixels = [[[1, 2, 3], [4, 5, 6], [7, 8, 9]]]\<rparr>"


text \<open>A raster of a single pixel.\<close>

definition single_pixel :: raster where
  "single_pixel =
     \<lparr>gt0 = 0, gt1 = 1, gt3 = 1, gt5 = - 1, RasterXSize = 1, RasterYSize = 1,
      pixels = [[[3]]]\<rparr>"


text \<open>Two rasters on the same unit grid: two bands over the columns 0 to 1, one band
  over the columns 1 to 2, both over the rows between y = 0 and y = 2.\<close>

definition stack_left :: raster where
  "stack_left =
     \<lparr>gt0 = 0, gt1 = 1, gt3 = 2, gt5 = - 1, RasterXSize = 2, RasterYSize = 2,
      pixels = [[[11, 12], [13, 14]], [[21, 22], [23, 24]]]\<rparr>"


text \<open>Two one-band rasters of one row and four columns of unit pixels whose grids are
  shifted against each other by one and a half pixels. They overlap between x = 3/2
  and x = 4.\<close>

definition shifted_left :: raster where
  "shifted_left =
     \<lparr>gt0 = 0, gt1 = 1, gt3 = 1, gt5 = - 1, RasterXSize = 4, RasterYSize = 1,
      pixels = [[[1, 2, 3, 4]]]\<rparr>"


text \<open>Masks of one pixel and of two pixels.\<close>

definition zero_mask :: raster where
  "zero_mask =
     \<lparr>gt0 = 0, gt1 = 1, gt3 = 1, gt5 = - 1, RasterXSize = 1, RasterYSize = 1,
      pixels = [[[0]]]\<rparr>"

definition mixed_mask :: raster where
  "mixed_mask =
     \<lparr>gt0 = 0, gt1 = 1, gt3 = 1, gt5 = - 1, RasterXSize = 2, RasterYSize = 1,
      pixels = [[[1, 0]]]\<rparr>"

section \<open>Chunked classification: proofs\<close>

lemma slice_range_nat: "a \<le> b \<Longrightarrow> b \<le> n \<Longrightarrow> slice_range n (int a) (int b) = (a, b)"
  by (simp add: slice_range_def slice_index_def Let_def)

lemma py_slice_nat: "a \<le> b \<Longrightarrow> b \<le> length xs \<Longrightarrow> py_slice xs (int a) (int b) = take (b - a) (drop a xs)"
  by (simp add: py_slice_def slice_range_nat)

lemma assign_slice_nat:
  "a \<le> b \<Longrightarrow> b \<le> length xs \<Longrightarrow> length vs = b - a \<Longrightarrow>
   assign_slice xs (int a) (int b) vs = Inr (take a xs @ vs @ drop b xs)"
  by (simp add: assign_slice_def slice_range_nat)

lemma classify_chunks_step:
  assumes "csz' = (if int j = nc - 1 then csz + resid else csz)"
    and "int j * csz = int a" and "int j * csz + csz' = int b"
  shows "classify_chunks predict good nc resid (j # ids) csz classes =
     bindE (assign_slice classes (int a) (int b)
              (map ubyte (model_predict predict (py_slice good (int a) (int b)))))
       (classify_chunks predict good nc resid ids csz')"
  unfolding assms(2)[symmetric] assms(3)[symmetric]
  by (simp add: Let_def assms(1))

lemma classify_chunks_inv:
  assumes "n = length good" "cs = n div k"
    and "resid = int n - int cs * int k"
  shows "j < k \<Longrightarrow> classes = map (ubyte \<circ> predict) (take (j * cs) good) @ replicate (n - j * cs) z \<Longrightarrow>
     classify_chunks predict good (int k) resid [j..<k] (int cs) classes
       = Inr (map (ubyte \<circ> predict) good)"
proof (induction "k - j" arbitrary: j classes)
  case 0
  then show ?case by simp
next
  case (Suc d)
  have csk: "cs * k \<le> n" using assms(2) by (simp add: mult.commute)
  have upt: "[j..<k] = j # [Suc j..<k]" using Suc.prems(1) by (simp add: upt_conv_Cons)
  have jcs: "j * cs \<le> n"
  proof -
    have "j * cs \<le> k * cs" using Suc.prems(1) by (intro mult_le_mono1) simp
    also have "\<dots> = cs * k" by (simp add: mult.commute)
    finally show ?thesis using csk by linarith
  qed
  have lc: "length classes = n" using Suc.prems(2) jcs assms(1) by simp
  show ?case
  proof (cases "Suc j = k")
    case True
    then have last: "int j = int k - 1" by simp
    have ik: "int k = int j + 1" using True by linarith
    have sz: "int cs + resid = int (n - j * cs)"
      using jcs unfolding assms(3) ik by (simp add: algebra_simps of_nat_diff)
    have off: "int j * int cs + (int cs + resid) = int n"
      using sz jcs by (simp add: of_nat_diff)
    have "classify_chunks predict good (int k) resid [j..<k] (int cs) classes =
          bindE (assign_slice classes (int (j * cs)) (int n)
                  (map ubyte (model_predict predict (py_slice good (int (j * cs)) (int n)))))
            (classify_chunks predict good (int k) resid [] (int cs + resid))"
    proof -
      have csz: "int cs + resid = (if int j = int k - 1 then int cs + resid else int cs)"
        using last by simp
      have off0: "int j * int cs = int (j * cs)" by simp
      have upt1: "[j..<k] = [j]" using True upt by simp
      show ?thesis unfolding upt1 classify_chunks_step[OF csz off0 off] by (rule refl)
    qed
    also have "py_slice good (int (j * cs)) (int n) = drop (j * cs) good"
      using py_slice_nat[of "j * cs" n good] jcs assms(1) by simp
    also have "assign_slice classes (int (j * cs)) (int n)
                  (map ubyte (model_predict predict (drop (j * cs) good)))
        = Inr (take (j * cs) classes @ map ubyte (model_predict predict (drop (j * cs) good)) @ drop n classes)"
      using jcs lc assms(1) by (intro assign_slice_nat) (simp_all add: model_predict_def del: of_nat_mult)
    also have "take (j * cs) classes = map (ubyte \<circ> predict) (take (j * cs) good)"
      using Suc.prems(2) jcs assms(1) by simp
    finally show ?thesis using lc
      by (simp add: bindE_def model_predict_def flip: map_append)
  next
    case False
    then have lt: "Suc j < k" using Suc.prems(1) by simp
    have notlast: "int j \<noteq> int k - 1" using False by linarith
    have sj: "Suc j * cs \<le> n"
    proof -
      have "Suc j * cs \<le> k * cs" using lt by (intro mult_le_mono1) simp
      also have "\<dots> = cs * k" by (simp add: mult.commute)
      finally show ?thesis using csk by linarith
    qed
    have off: "int j * int cs + int cs = int (Suc j * cs)" by (simp add: algebra_simps)
    have off0: "int j * int cs = int (j * cs)" by simp
    have csz: "int cs = (if int j = int k - 1 then int cs + resid else int cs)"
      using notlast by simp
    let ?vs = "map ubyte (model_predict predict (take cs (drop (j * cs) good)))"
    let ?classes' = "take (j * cs) classes @ ?vs @ drop (Suc j * cs) classes"
    have sl: "py_slice good (int (j * cs)) (int (Suc j * cs)) = take cs (drop (j * cs) good)"
      using py_slice_nat[of "j * cs" "Suc j * cs" good] sj assms(1) by simp
    have lvs: "length ?vs = Suc j * cs - j * cs"
      using sj assms(1) by (simp add: model_predict_def)
    have as: "assign_slice classes (int (j * cs)) (int (Suc j * cs)) ?vs = Inr ?classes'"
      using sj lc lvs by (intro assign_slice_nat) simp_all
    have step: "classify_chunks predict good (int k) resid [j..<k] (int cs) classes =
          classify_chunks predict good (int k) resid [Suc j..<k] (int cs) ?classes'"
      unfolding upt classify_chunks_step[OF csz off0 off] sl as bindE_def
      by (simp only: sum.case)
    have c': "?classes' = map (ubyte \<circ> predict) (take (Suc j * cs) good) @ replicate (n - Suc j * cs) z"
    proof -
      have "Suc j * cs = j * cs + cs" by simp
      then have t: "take (Suc j * cs) good = take (j * cs) good @ take cs (drop (j * cs) good)"
        by (simp only: take_add)
      have a: "take (j * cs) classes = map (ubyte \<circ> predict) (take (j * cs) good)"
        using Suc.prems(2) jcs assms(1) by simp
      have b: "drop (Suc j * cs) classes = replicate (n - Suc j * cs) z"
        using Suc.prems(2) jcs sj assms(1) by simp
      show ?thesis unfolding a b t by (simp add: model_predict_def)
    qed
    have "d = k - Suc j" using Suc.hyps(2) by simp
    from Suc.hyps(1)[OF this lt c'] step show ?thesis by simp
  qed
qed

lemma py_int_div: "1 \<le> k \<Longrightarrow> py_int (rat_of_nat n / rat_of_int k) = int (n div nat k)"
proof -
  assume k: "1 \<le> k"
  then have e: "rat_of_int k = rat_of_nat (nat k)" by simp
  have "0 \<le> rat_of_nat n / rat_of_nat (nat k)" by simp
  then show ?thesis unfolding e py_int_def by (simp add: floor_divide_of_nat_eq)
qed

lemma classify_chunks_all:
  assumes "1 \<le> num_chunks"
  shows "classify_chunks predict good num_chunks
           (int (length good) - py_int (rat_of_nat (length good) / rat_of_int num_chunks) * num_chunks)
           [0..<nat num_chunks]
           (py_int (rat_of_nat (length good) / rat_of_int num_chunks))
           (replicate (length good) z)
         = Inr (map (ubyte \<circ> predict) good)"
proof -
  define k where "k = nat num_chunks"
  have k: "num_chunks = int k" "0 < k" using assms by (simp_all add: k_def)
  have p: "py_int (rat_of_nat (length good) / rat_of_int num_chunks) = int (length good div k)"
    using py_int_div[OF assms] by (simp add: k_def)
  show ?thesis unfolding p unfolding k(1) nat_int
    by (rule classify_chunks_inv[where n="length good" and z=z, OF refl refl refl]) (use k in simp_all)
qed

lemma length_scatter: "length (scatter out ivs) = length out"
  by (induction out ivs rule: scatter.induct) simp_all

lemma length_reshape_raster_for_ml:
  "length (reshape_raster_for_ml img) = RasterYSize img * RasterXSize img"
  by (simp add: reshape_raster_for_ml_def length_concat comp_def sum_list_triv)

text \<open>With at least one chunk the loop labels every good sample exactly once, so the
  class map is a function of the image, the model and nodata alone.\<close>

lemma classify_image_chunked:
  assumes "1 \<le> num_chunks"
  shows "classify_image img predict num_chunks nodata =
     Inr (map (map ubyte)
       (map (\<lambda>y. take (RasterXSize img) (drop (y * RasterXSize img)
          (scatter (replicate (length (reshape_raster_for_ml img)) nodata)
             (zip (good_indices_of nodata (reshape_raster_for_ml img))
                (map (ubyte \<circ> predict) (good_samples_of nodata (reshape_raster_for_ml img)))))))
          [0..<RasterYSize img]))"
proof -
  have nz: "num_chunks \<noteq> 0" using assms by simp
  show ?thesis
    unfolding classify_image_def Let_def
    by (simp only: nz if_False classify_chunks_all[OF assms] bindE_def sum.case
          reshape_ml_out_to_raster_def length_scatter length_replicate
          length_reshape_raster_for_ml if_True) simp
qed



lemma classify_image_seven_chunks_example:
  "classify_image chunk_example sum_list 7 0 = Inr [[1, 2, 3], [4, 5, 6], [7, 8, 9]]"
  by code_simp

lemma filter_as_indices:
  "filter Q ys = map (nth ys) (filter (Q \<circ> nth ys) [0..<length ys])"
proof -
  have "map (nth ys) (filter (Q \<circ> nth ys) [0..<length ys])
          = filter Q (map (nth ys) [0..<length ys])"
    by (simp add: filter_map)
  then show ?thesis by (simp add: map_nth)
qed

lemma zip_good:
  "zip (filter (\<lambda>i. P (xs ! i)) [0..<length xs]) (map f (filter P xs))
     = map (\<lambda>i. (i, f (xs ! i))) (filter (\<lambda>i. P (xs ! i)) [0..<length xs])"
proof -
  have "map f (filter P xs) = map (\<lambda>i. f (xs ! i)) (filter (\<lambda>i. P (xs ! i)) [0..<length xs])"
    by (subst filter_as_indices) (simp add: comp_def)
  then show ?thesis by (simp add: zip_map2 zip_same_conv_map)
qed

lemma scatter_indexed:
  "j < length out \<Longrightarrow>
   scatter out (map (\<lambda>i. (i, g i)) idxs) ! j = (if j \<in> set idxs then g j else out ! j)"
proof (induction idxs arbitrary: out)
  case Nil
  then show ?case by simp
next
  case (Cons i idxs)
  then show ?case by (auto simp: nth_list_update)
qed

lemma scatter_good:
  assumes "j < length xs" "length out = length xs"
  shows "scatter out (zip (filter (\<lambda>i. P (xs ! i)) [0..<length xs]) (map f (filter P xs))) ! j
           = (if P (xs ! j) then f (xs ! j) else out ! j)"
  using assms by (simp add: zip_good scatter_indexed)

lemma scatter_all:
  assumes "j < length xs" "length out = length xs"
  shows "scatter out (zip [0..<length xs] (map f xs)) ! j = f (xs ! j)"
proof -
  have "zip [0..<length xs] (map f xs) = map (\<lambda>i. (i, f (xs ! i))) [0..<length xs]"
    using zip_good[of "\<lambda>_. True" xs f] by simp
  then show ?thesis using assms by (simp add: scatter_indexed)
qed

lemma nth_concat_rows:
  assumes "y < h" "x < w"
  shows "concat (map (\<lambda>y. map (g y) [0..<w]) [0..<h]) ! (y * w + x) = g y x"
  using assms
proof (induction h arbitrary: y)
  case 0
  then show ?case by simp
next
  case (Suc h)
  have len: "length (concat (map (\<lambda>y. map (g y) [0..<w]) [0..<h])) = h * w"
    by (simp add: length_concat comp_def sum_list_triv)
  show ?case
  proof (cases "y < h")
    case True
    then have "y * w + x < h * w"
    proof -
      have "y * w + x < y * w + w" using Suc.prems(2) by simp
      also have "\<dots> = Suc y * w" by simp
      also have "\<dots> \<le> h * w" using True by (intro mult_le_mono1) simp
      finally show ?thesis .
    qed
    then show ?thesis using Suc.IH[OF True Suc.prems(2)] len by (simp add: nth_append)
  next
    case False
    then have "y = h" using Suc.prems(1) by simp
    then show ?thesis using len Suc.prems(2) by (simp add: nth_append)
  qed
qed

lemma sample_index:
  assumes "y < RasterYSize img" "x < RasterXSize img"
  shows "reshape_raster_for_ml img ! (y * RasterXSize img + x)
           = map (\<lambda>band. band ! y ! x) (pixels img)"
  unfolding reshape_raster_for_ml_def by (rule nth_concat_rows[OF assms])

lemma flat_index_bound:
  assumes "y < h" "x < (w::nat)"
  shows "y * w + x < h * w"
proof -
  have "y * w + x < Suc y * w" using assms(2) by simp
  also have "\<dots> \<le> h * w" using assms(1) by (intro mult_le_mono1) simp
  finally show ?thesis .
qed

text \<open>When the image contains a zero, or when nodata is zero, the class map holds the
  byte of nodata at the pixels with a band equal to nodata and the label of the model
  at all others.\<close>

lemma classify_image_nodata_when_filtered:
  assumes k: "1 \<le> num_chunks"
    and z: "has_zero (reshape_raster_for_ml img) \<or> nodata = 0"
    and y: "y < RasterYSize img" and x: "x < RasterXSize img"
  shows "\<exists>out. classify_image img predict num_chunks nodata = Inr out
     \<and> out ! y ! x =
         (if is_good nodata (map (\<lambda>band. band ! y ! x) (pixels img))
          then ubyte (predict (map (\<lambda>band. band ! y ! x) (pixels img)))
          else ubyte nodata)"
proof -
  let ?xs = "reshape_raster_for_ml img"
  let ?n = "length ?xs"
  let ?W = "RasterXSize img"
  let ?j = "y * ?W + x"
  let ?sc = "scatter (replicate ?n nodata)
             (zip (good_indices_of nodata ?xs) (map (ubyte \<circ> predict) (good_samples_of nodata ?xs)))"
  have n: "?n = RasterYSize img * ?W" by (rule length_reshape_raster_for_ml)
  have j: "?j < ?n" unfolding n by (rule flat_index_bound[OF y x])
  have lsc: "length ?sc = ?n" by (simp add: length_scatter)
  have val: "?sc ! ?j = (if is_good nodata (?xs ! ?j) then (ubyte \<circ> predict) (?xs ! ?j) else nodata)"
  proof (cases "has_zero ?xs")
    case True
    then show ?thesis
      using scatter_good[of ?j ?xs "replicate ?n nodata" "is_good nodata" "ubyte \<circ> predict"] j
      by (simp add: good_indices_of_def good_samples_of_def)
  next
    case False
    with z have nd: "nodata = 0" by simp
    have "is_good nodata (?xs ! ?j)"
    proof -
      have "?xs ! ?j \<in> set ?xs" using j by simp
      then show ?thesis using False unfolding nd has_zero_def is_good_def
        by (auto simp: list_ex_iff list_all_iff)
    qed
    then show ?thesis
      using False scatter_all[of ?j ?xs "replicate ?n nodata" "ubyte \<circ> predict"] j
      by (simp add: good_indices_of_def good_samples_of_def)
  qed
  have row: "take ?W (drop (y * ?W) ?sc) ! x = ?sc ! ?j"
    using x j lsc by simp
  have "classify_image img predict num_chunks nodata =
     Inr (map (map ubyte) (map (\<lambda>y. take ?W (drop (y * ?W) ?sc)) [0..<RasterYSize img]))"
    by (rule classify_image_chunked[OF k])
  moreover have "map (map ubyte) (map (\<lambda>y. take ?W (drop (y * ?W) ?sc)) [0..<RasterYSize img]) ! y ! x
      = ubyte (?sc ! ?j)"
  proof -
    have lx: "x < length (take ?W (drop (y * ?W) ?sc))"
      using x j lsc by simp
    show ?thesis using y lx row by simp
  qed
  ultimately show ?thesis
    unfolding val sample_index[OF y x] by (auto simp: ubyte_def)
qed


text \<open>What \<^verbatim>\<open>autochunk\<close> returns, when it returns a number, is a divisor of the pixel
  count below the pixel count that meets the bound, and no smaller divisor does.\<close>

lemma autochunk_search_sound:
  "autochunk_search n b m cs = Some d \<Longrightarrow>
   d \<in> set cs \<and> n mod d = 0 \<and> (rat_of_nat n / rat_of_nat d) * rat_of_nat b < rat_of_int m"
  by (induction cs) (auto split: if_splits)

lemma autochunk_search_least:
  "autochunk_search n b m cs = Some d \<Longrightarrow> sorted_wrt (<) cs \<Longrightarrow> c \<in> set cs \<Longrightarrow> c < d \<Longrightarrow>
   \<not> (n mod c = 0 \<and> (rat_of_nat n / rat_of_nat c) * rat_of_nat b < rat_of_int m)"
proof (induction cs)
  case Nil
  then show ?case by simp
next
  case (Cons a cs)
  show ?case
  proof (cases "n mod a = 0 \<and> (rat_of_nat n / rat_of_nat a) * rat_of_nat b < rat_of_int m")
    case True
    then have "d = a" using Cons.prems(1) by (auto split: if_splits)
    then show ?thesis using Cons.prems(2,3,4) by auto
  next
    case False
    then have rec: "autochunk_search n b m cs = Some d" using Cons.prems(1) by (auto split: if_splits)
    show ?thesis
    proof (cases "c = a")
      case True
      then show ?thesis using False by simp
    next
      case False
      then have "c \<in> set cs" using Cons.prems(3) by simp
      from Cons.IH[OF rec _ this Cons.prems(4)] Cons.prems(2) show ?thesis by simp
    qed
  qed
qed

lemma autochunk_returns_least_proper_divisor:
  assumes "autochunk dataset itemsize (Some mem_limit) avail = Some d" and "mem_limit \<noteq> 0"
  shows "1 \<le> d \<and> d < RasterXSize dataset * RasterYSize dataset
     \<and> (RasterXSize dataset * RasterYSize dataset) mod d = 0
     \<and> (rat_of_nat (RasterXSize dataset * RasterYSize dataset) / rat_of_nat d)
          * rat_of_nat (itemsize * RasterCount dataset) < rat_of_int mem_limit
     \<and> (\<forall>c. 1 \<le> c \<and> c < d \<longrightarrow>
           \<not> ((RasterXSize dataset * RasterYSize dataset) mod c = 0
              \<and> (rat_of_nat (RasterXSize dataset * RasterYSize dataset) / rat_of_nat c)
                   * rat_of_nat (itemsize * RasterCount dataset) < rat_of_int mem_limit))"
proof -
  let ?n = "RasterXSize dataset * RasterYSize dataset"
  let ?b = "itemsize * RasterCount dataset"
  have s: "autochunk_search ?n ?b mem_limit [1..<?n] = Some d"
    using assms by (simp add: autochunk_def Let_def)
  note snd = autochunk_search_sound[OF s]
  have least: "\<not> (?n mod c = 0 \<and> (rat_of_nat ?n / rat_of_nat c) * rat_of_nat ?b < rat_of_int mem_limit)"
    if "1 \<le> c" "c < d" for c
  proof -
    have "c \<in> set [1..<?n]" using that snd by auto
    from autochunk_search_least[OF s _ this that(2)] show ?thesis
      by (simp add: sorted_wrt_upt)
  qed
  show ?thesis using snd least by auto
qed

text \<open>
  Claim C8. The claim: \<^verbatim>\<open>autochunk\<close> returns the smallest divisor of the pixel count
  whose chunk stays under the memory limit. The loop runs over \<^verbatim>\<open>range(1, pixels)\<close>,
  which leaves out the pixel count itself. For a raster of one pixel the range is empty:
  the divisor 1 meets the bound, and the function returns \<^verbatim>\<open>None\<close>.
\<close>

theorem autochunk_single_pixel:
  "autochunk single_pixel 1 (Some 100) 0 = None
   \<and> (RasterXSize single_pixel * RasterYSize single_pixel) mod 1 = 0
   \<and> (rat_of_nat (RasterXSize single_pixel * RasterYSize single_pixel) / rat_of_nat 1)
        * rat_of_nat (1 * RasterCount single_pixel) < rat_of_int 100"
  by (simp add: autochunk_def single_pixel_def RasterCount_def py_int_def)

section \<open>Window mapper: proofs\<close>

lemma envelope_within:
  "p \<noteq> [] \<Longrightarrow> list_all (\<lambda>e. rect_nonempty e \<and> rect_within e B) p \<Longrightarrow>
   rect_nonempty (ogr_GetEnvelope p) \<and> rect_within (ogr_GetEnvelope p) B"
proof (induction p rule: list_nonempty_induct)
  case (single e)
  then show ?case by simp
next
  case (cons e p)
  then have ih: "rect_nonempty (ogr_GetEnvelope p) \<and> rect_within (ogr_GetEnvelope p) B"
    by simp
  from cons.prems have e: "rect_nonempty e" "rect_within e B" by simp_all
  obtain v va where p: "p = v # va" using cons.hyps by (cases p) auto
  obtain x0 x1 y0 y1 where ee: "e = (x0, x1, y0, y1)" by (cases e) auto
  obtain a0 a1 b0 b1 where ev: "ogr_GetEnvelope (v # va) = (a0, a1, b0, b1)"
    by (cases "ogr_GetEnvelope (v # va)") auto
  obtain c0 c1 d0 d1 where bb: "B = (c0, c1, d0, d1)" by (cases B) auto
  show ?case using ih e unfolding ee bb p
    by (simp add: ev rect_nonempty_def rect_within_def min_def max_def)
qed

lemma intersection_within:
  "list_all (\<lambda>e. rect_nonempty e \<and> rect_within e B) p \<Longrightarrow> ogr_Intersection [B] p = p"
proof (induction p)
  case Nil
  then show ?case by (simp add: ogr_Intersection_def)
next
  case (Cons e p)
  then have ih: "filter rect_nonempty (map (rect_inter B) p) = p"
    by (simp add: ogr_Intersection_def)
  from Cons.prems have e: "rect_nonempty e" "rect_within e B" by simp_all
  have "rect_inter B e = e" using e(2)
    by (cases e; cases B) (simp add: rect_inter_def rect_within_def min_def max_def)
  then show ?case using ih e(1) by (simp add: ogr_Intersection_def)
qed

lemma raster_bounds_north_up:
  assumes "0 < gt1 r" "gt5 r < 0" "1 \<le> RasterXSize r" "1 \<le> RasterYSize r"
  shows "get_raster_bounds r =
     [(gt0 r, gt0 r + gt1 r * rat_of_nat (RasterXSize r),
       gt3 r + gt5 r * rat_of_nat (RasterYSize r), gt3 r)]"
proof -
  have w: "0 < gt1 r * rat_of_nat (RasterXSize r)" using assms(1,3) by simp
  have h: "gt5 r * rat_of_nat (RasterYSize r) < 0" using assms(2,4)
    by (simp add: mult_neg_pos)
  show ?thesis using w h
    by (simp add: get_raster_bounds_def Let_def rect_nonempty_def min_def max_def)
qed

lemma footprint_empty: "get_raster_bounds r = [] \<Longrightarrow> footprint r = (0, 0, 0, 0)"
  by (simp add: footprint_def)

text \<open>
  Claim C7. For every north-up raster and every polygon within its footprint,
  \<^verbatim>\<open>pixel_bounds_from_polygon\<close> returns a window with
  0 \<open>\<le>\<close> x_min \<open>\<le>\<close> x_max \<open>\<le>\<close> width and 0 \<open>\<le>\<close> y_min \<open>\<le>\<close> y_max \<open>\<le>\<close> height.
\<close>

theorem pixel_bounds_within_raster:
  assumes "0 < gt1 r" and "gt5 r < 0" and "polygon_within polygon r"
  shows "\<exists>x_min x_max y_min y_max.
           pixel_bounds_from_polygon r polygon = Inr (x_min, x_max, y_min, y_max)
           \<and> 0 \<le> x_min \<and> x_min \<le> x_max \<and> x_max \<le> int (RasterXSize r)
           \<and> 0 \<le> y_min \<and> y_min \<le> y_max \<and> y_max \<le> int (RasterYSize r)"
proof -
  let ?B = "footprint r"
  from assms(3) have pne: "polygon \<noteq> []"
    and pall: "list_all (\<lambda>e. rect_nonempty e \<and> rect_within e ?B) polygon"
    by (simp_all add: polygon_within_def)
  from envelope_within[OF pne pall]
  have env: "rect_nonempty (ogr_GetEnvelope polygon)" "rect_within (ogr_GetEnvelope polygon) ?B"
    by simp_all
  obtain x0 x1 y0 y1 where ep: "ogr_GetEnvelope polygon = (x0, x1, y0, y1)"
    by (cases "ogr_GetEnvelope polygon") auto
  have ne: "x0 < x1" "y0 < y1" using env(1) by (simp_all add: ep rect_nonempty_def)
  have sizes: "1 \<le> RasterXSize r \<and> 1 \<le> RasterYSize r"
  proof (rule ccontr)
    assume "\<not> ?thesis"
    then have "RasterXSize r = 0 \<or> RasterYSize r = 0" by auto
    then have "get_raster_bounds r = []"
      by (auto simp: get_raster_bounds_def Let_def rect_nonempty_def)
    then have "?B = (0, 0, 0, 0)" by (rule footprint_empty)
    then show False using env(2) ne by (simp add: ep rect_within_def)
  qed
  let ?W = "rat_of_nat (RasterXSize r)" and ?H = "rat_of_nat (RasterYSize r)"
  have rb: "get_raster_bounds r = [(gt0 r, gt0 r + gt1 r * ?W, gt3 r + gt5 r * ?H, gt3 r)]"
    using raster_bounds_north_up[OF assms(1,2)] sizes by simp
  then have B: "?B = (gt0 r, gt0 r + gt1 r * ?W, gt3 r + gt5 r * ?H, gt3 r)"
    by (simp add: footprint_def)
  have inter: "get_poly_intersection (get_raster_bounds r) polygon = polygon"
    using intersection_within[OF pall] rb B by (simp add: get_poly_intersection_def)
  have bx: "gt0 r \<le> x0" "x1 \<le> gt0 r + gt1 r * ?W"
    and byy: "gt3 r + gt5 r * ?H \<le> y0" "y1 \<le> gt3 r"
    using env(2) by (simp_all add: ep B rect_within_def)
  define cx0 where "cx0 = \<lfloor>(x0 - gt0 r) / gt1 r\<rfloor>"
  define cx1 where "cx1 = \<lfloor>(x1 - gt0 r) / gt1 r\<rfloor>"
  define cy0 where "cy0 = \<lfloor>(y0 - gt3 r) / gt5 r\<rfloor>"
  define cy1 where "cy1 = \<lfloor>(y1 - gt3 r) / gt5 r\<rfloor>"
  have x0_ge: "0 \<le> cx0" unfolding cx0_def using bx(1) assms(1) by simp
  have x01: "cx0 \<le> cx1" unfolding cx0_def cx1_def
    using ne(1) assms(1) by (intro floor_mono divide_right_mono) simp_all
  have "(x1 - gt0 r) / gt1 r \<le> ?W" using bx(2) assms(1)
    by (simp add: pos_divide_le_eq mult.commute)
  then have x1_le: "cx1 \<le> int (RasterXSize r)" unfolding cx1_def
    by (metis floor_mono floor_of_nat)
  have y1_ge: "0 \<le> cy1" unfolding cy1_def using byy(2) assms(2)
    by (simp add: zero_le_divide_iff)
  have y10: "cy1 \<le> cy0" unfolding cy0_def cy1_def
    using ne(2) assms(2) by (intro floor_mono divide_right_mono_neg) simp_all
  have "(y0 - gt3 r) / gt5 r \<le> ?H" using byy(1) assms(2)
    by (simp add: neg_divide_le_eq mult.commute)
  then have y0_le: "cy0 \<le> int (RasterYSize r)" unfolding cy0_def
    by (metis floor_mono floor_of_nat)
  have nz: "gt1 r \<noteq> 0" "gt5 r \<noteq> 0" using assms(1,2) by simp_all
  have pb: "pixel_bounds_from_polygon r polygon =
     Inr (if cx1 \<le> cx0 then cx1 else cx0, if cx1 \<le> cx0 then cx0 else cx1,
          if cy1 \<le> cy0 then cy1 else cy0, if cy1 \<le> cy0 then cy0 else cy1)"
    unfolding pixel_bounds_from_polygon_def Let_def inter ep
    by (simp add: point_to_pixel_coordinates_def nz bindE_def
          cx0_def[symmetric] cx1_def[symmetric] cy0_def[symmetric] cy1_def[symmetric])
  show ?thesis unfolding pb using x0_ge x01 x1_le y1_ge y10 y0_le by auto
qed

theorem pixel_bounds_within_raster_witness:
  "0 < gt1 stack_left \<and> gt5 stack_left < 0
   \<and> polygon_within [(1 / 2, 3 / 2, 1 / 2, 3 / 2)] stack_left
   \<and> (\<exists>x_min x_max y_min y_max.
           pixel_bounds_from_polygon stack_left [(1 / 2, 3 / 2, 1 / 2, 3 / 2)]
             = Inr (x_min, x_max, y_min, y_max)
           \<and> 0 \<le> x_min \<and> x_min \<le> x_max \<and> x_max \<le> int (RasterXSize stack_left)
           \<and> 0 \<le> y_min \<and> y_min \<le> y_max \<and> y_max \<le> int (RasterYSize stack_left))"
proof -
  have g: "0 < gt1 stack_left" "gt5 stack_left < 0" by (simp_all add: stack_left_def)
  have p: "polygon_within [(1 / 2, 3 / 2, 1 / 2, 3 / 2)] stack_left" by code_simp
  from pixel_bounds_within_raster[OF g p] g p show ?thesis by blast
qed

lemma pixel_bounds_example:
  "pixel_bounds_from_polygon stack_left [(1 / 2, 3 / 2, 1 / 2, 3 / 2)] = Inr (0, 1, 0, 1)"
  by code_simp

section \<open>Stacking errors, the affine round trip and mask combination: proofs\<close>

text \<open>
  Claim C9. For every list of fewer than two rasters, \<^verbatim>\<open>stack_images\<close> raises
  \<^verbatim>\<open>StackImagesException\<close>, the error class that the source reserves for this operation
  (the specification calls it \<open>AlignmentError\<close>), before any raster is opened or
  created: the result is the exception and no output raster.
\<close>

theorem stack_images_too_few_inputs:
  assumes "length rasters \<le> 1"
  shows "stack_images rasters geometry_mode =
           Inl (StackImagesException ''stack_images requires at least two input images'')"
  using assms by (simp add: stack_images_def)

theorem stack_images_too_few_inputs_witness:
  "length [shifted_left] \<le> 1 \<and>
   stack_images [shifted_left] ''intersect'' =
     Inl (StackImagesException ''stack_images requires at least two input images'')"
  using stack_images_too_few_inputs[of "[shifted_left]" "''intersect''"] by simp



lemma combine_loop_keeps_out_mask:
  "combine_loop combination_func geometry_func combined_polygon masks out_mask = Inr res
   \<Longrightarrow> res = out_mask"
proof (induction masks)
  case Nil
  then show ?case by simp
next
  case (Cons in_mask rest)
  then show ?case
    by (auto simp: bindE_def Let_def split: sum.splits prod.splits if_splits)
qed

text \<open>
  Claim C10. Whenever \<^verbatim>\<open>combine_masks\<close> returns, which requires a non-empty list of
  masks and recognised combination and geometry functions, the mask it has written
  consists of a single band in which every pixel is 1, whatever the input masks hold.
\<close>

theorem combine_masks_all_ones:
  assumes "combine_masks masks combination_func geometry_func = Inr out"
  shows "pixels out = [replicate (RasterYSize out) (replicate (RasterXSize out) 1)]"
  using assms
  by (auto simp: combine_masks_def bindE_def Let_def split: sum.splits list.splits
           dest!: combine_loop_keeps_out_mask)

theorem combine_masks_all_ones_witness:
  "combine_masks [mixed_mask, mixed_mask] ''and'' ''intersect''
     = Inr \<lparr>gt0 = 0, gt1 = 1, gt3 = 1, gt5 = - 1, RasterXSize = 2, RasterYSize = 1,
            pixels = [[[1, 1]]]\<rparr>
   \<and> pixels \<lparr>gt0 = 0, gt1 = 1, gt3 = 1, gt5 = - 1, RasterXSize = 2, RasterYSize = 1,
            pixels = [[[1, 1]]]\<rparr>
       = [replicate (RasterYSize \<lparr>gt0 = 0, gt1 = 1, gt3 = 1, gt5 = - 1, RasterXSize = 2,
                                  RasterYSize = 1, pixels = [[[1, 1]]]\<rparr>)
            (replicate (RasterXSize \<lparr>gt0 = 0, gt1 = 1, gt3 = 1, gt5 = - 1, RasterXSize = 2,
                                  RasterYSize = 1, pixels = [[[1, 1]]]\<rparr>) 1)]"
proof -
  have e: "combine_masks [mixed_mask, mixed_mask] ''and'' ''intersect''
     = Inr \<lparr>gt0 = 0, gt1 = 1, gt3 = 1, gt5 = - 1, RasterXSize = 2, RasterYSize = 1,
            pixels = [[[1, 1]]]\<rparr>"
    by code_simp
  from combine_masks_all_ones[OF e] e show ?thesis by blast
qed

text \<open>
  Claim C3. The claim: combining a mask with itself by "and" over the intersection
  gives the mask back. The loop of \<^verbatim>\<open>combine_masks\<close> computes the conjunction and binds
  it to a local name without writing it to the output. For the mask of a single pixel
  of value 0 the output is the pixel 1.
\<close>

theorem combine_masks_and_self:
  "combine_masks [zero_mask, zero_mask] ''and'' ''intersect''
     = Inr \<lparr>gt0 = 0, gt1 = 1, gt3 = 1, gt5 = - 1, RasterXSize = 1, RasterYSize = 1,
            pixels = [[[1]]]\<rparr>
   \<and> pixels zero_mask = [[[0]]]"
  by code_simp

section \<open>Compositor: proofs\<close>







lemma get_raster_bounds_pixels_update [simp]:
  "get_raster_bounds (r\<lparr>pixels := p\<rparr>) = get_raster_bounds r"
  by (simp add: get_raster_bounds_def)

lemma point_to_pixel_pixels_update [simp]:
  "point_to_pixel_coordinates (r\<lparr>pixels := p\<rparr>) pt = point_to_pixel_coordinates r pt"
  by (cases pt) (simp add: point_to_pixel_coordinates_def)

lemma pixel_bounds_pixels_update [simp]:
  "pixel_bounds_from_polygon (r\<lparr>pixels := p\<rparr>) poly = pixel_bounds_from_polygon r poly"
  by (simp add: pixel_bounds_from_polygon_def)















end
